theory Spec2Isabelle
  imports Main
begin

section \<open>The collaborative whiteboard client (src/src/App.jsx)\<close>

text \<open>
  The component \<^verbatim>\<open>App\<close> is a set of callbacks that the browser, React, the STOMP
  client and axios invoke one at a time. Each callback is embedded as a function from
  the engine state to the list of effects it performs, in program order, and the state
  it leaves. The effects are the calls that leave the component: calls on the canvas
  2D context, on the STOMP client, on axios and on the console.
\<close>

subsection \<open>JavaScript values\<close>

text \<open>
  Values that reach the callbacks from the network are whatever \<^verbatim>\<open>JSON.parse\<close>
  returns, so fields are dynamically typed. The number type \<open>'n\<close> is left open: the
  source only subtracts numbers, tests them for zero and hands them on.
  An object is the list of its own properties; \<open>map_of\<close> reads a property.
\<close>

datatype 'n jsval =
    JUndefined
  | JNull
  | JBool bool
  | JNum 'n
  | JStr string
  | JArr "'n jsval list"
  | JObj "(string \<times> 'n jsval) list"

datatype js_error = SyntaxError | TypeError | AxiosError

text \<open>
  Reading a property \<^verbatim>\<open>v.k\<close> throws a TypeError when \<open>v\<close> is \<^verbatim>\<open>null\<close> or
  \<^verbatim>\<open>undefined\<close>. On every other value it returns the property, or
  \<^verbatim>\<open>undefined\<close> when there is none (the names read by the source, \<^verbatim>\<open>userId\<close>,
  \<^verbatim>\<open>type\<close>, \<^verbatim>\<open>startX\<close>, ..., are not properties of primitives or arrays).
\<close>

definition nullish :: "'n jsval \<Rightarrow> bool" where
  "nullish v = (case v of JUndefined \<Rightarrow> True | JNull \<Rightarrow> True | _ \<Rightarrow> False)"

definition js_get :: "'n jsval \<Rightarrow> string \<Rightarrow> 'n jsval" where
  "js_get v k =
     (case v of
        JObj kvs \<Rightarrow> (case map_of kvs k of None \<Rightarrow> JUndefined | Some x \<Rightarrow> x)
      | _ \<Rightarrow> JUndefined)"

text \<open>Truthiness, for \<^verbatim>\<open>e.tool || "draw"\<close>.\<close>

definition truthy :: "'n::zero jsval \<Rightarrow> bool" where
  "truthy v =
     (case v of
        JUndefined \<Rightarrow> False
      | JNull \<Rightarrow> False
      | JBool b \<Rightarrow> b
      | JNum n \<Rightarrow> n \<noteq> 0
      | JStr s \<Rightarrow> s \<noteq> []
      | JArr _ \<Rightarrow> True
      | JObj _ \<Rightarrow> True)"

definition js_or :: "'n::zero jsval \<Rightarrow> 'n jsval \<Rightarrow> 'n jsval" where
  "js_or a b = (if truthy a then a else b)"

subsection \<open>Constants\<close>

definition API_URL :: string where
  "API_URL = ''http://localhost:8080''"

definition SESSION_ID :: string where
  "SESSION_ID = ''default-session''"

subsection \<open>Effects\<close>

text \<open>Calls on the canvas 2D context, with the arguments as the source passes them.\<close>

datatype 'n ctx_call =
    Save
  | SetGlobalCompositeOperation string
  | SetStrokeStyle "'n jsval"
  | SetLineWidth "'n jsval"
  | SetLineCap string
  | SetLineJoin string
  | BeginPath
  | MoveTo "'n jsval" "'n jsval"
  | LineTo "'n jsval" "'n jsval"
  | Stroke
  | Restore
  | ClearRect 'n 'n 'n 'n

text \<open>
  \<open>StompPublish d v\<close> is \<^verbatim>\<open>publish({destination: d, body: JSON.stringify(v)})\<close>:
  the body is kept as the value handed to the serialiser. \<open>SetCanvasWidth w\<close> and
  \<open>SetCanvasHeight h\<close> are the assignments \<^verbatim>\<open>canvas.width = w\<close> and
  \<^verbatim>\<open>canvas.height = h\<close>, with the number assigned; each of them resets the bitmap
  of the canvas.
\<close>

datatype 'n effect =
    Ctx "'n ctx_call"
  | SetCanvasWidth 'n
  | SetCanvasHeight 'n
  | AddResizeListener
  | RemoveResizeListener
  | AxiosGet string
  | AxiosDelete string
  | StompActivate
  | StompDeactivate
  | StompSubscribe string
  | StompPublish string "'n jsval"
  | ConsoleLog string
  | ConsoleError string js_error

text \<open>The renderer calls among a list of effects.\<close>

fun renderer_calls :: "'n effect list \<Rightarrow> 'n ctx_call list" where
  "renderer_calls [] = []"
| "renderer_calls (Ctx c # fx) = c # renderer_calls fx"
| "renderer_calls (_ # fx) = renderer_calls fx"

text \<open>The envelopes published among a list of effects.\<close>

fun published :: "'n effect list \<Rightarrow> (string \<times> 'n jsval) list" where
  "published [] = []"
| "published (StompPublish d v # fx) = (d, v) # published fx"
| "published (_ # fx) = published fx"

subsection \<open>State\<close>

text \<open>
  \<open>point\<close> is the object \<^verbatim>\<open>{x, y}\<close> of \<^verbatim>\<open>lastPos\<close>; \<open>dom_rect\<close> is what
  \<^verbatim>\<open>getBoundingClientRect()\<close> returns; \<open>stomp_client\<close> is the STOMP client object,
  of which the source reads the flag \<^verbatim>\<open>connected\<close>.
\<close>

record 'n point =
  px :: 'n
  py :: 'n

record 'n dom_rect =
  rect_left :: 'n
  rect_top :: 'n
  rect_width :: 'n
  rect_height :: 'n

record 'n mouse_event =
  clientX :: 'n
  clientY :: 'n

record stomp_client =
  connected :: bool

text \<open>
  The setters of \<^verbatim>\<open>canvas.width\<close> and \<^verbatim>\<open>canvas.height\<close> belong to the DOM: they
  convert the number assigned to an unsigned long and fall back to the default size when
  the result is out of range. \<open>width_stored cnv w\<close> is what \<^verbatim>\<open>canvas.width\<close> holds
  after \<^verbatim>\<open>canvas.width = w\<close>, and likewise for the height. The component does not
  define the conversion, so the callbacks that resize take it as a parameter.
\<close>

record 'n dom_canvas =
  width_stored :: "'n \<Rightarrow> 'n"
  height_stored :: "'n \<Rightarrow> 'n"

text \<open>
  The refs and React state of the component, and the size of the canvas element.
  A state setter is taken to have taken effect when the next callback runs.
\<close>

record 'n engine =
  canvas_width :: 'n
  canvas_height :: 'n
  stompClientRef :: "stomp_client option"
  lastPos :: "'n point"
  isDrawing :: bool
  color :: string
  lineWidth :: 'n
  tool :: string
  connectedUsers :: nat
  userId :: string

subsection \<open>Drawing\<close>

text \<open>
  \<^verbatim>\<open>drawLine\<close> (lines 113-145). The parameter \<^verbatim>\<open>toolType\<close> defaults to
  \<^verbatim>\<open>"draw"\<close> when the argument is \<^verbatim>\<open>undefined\<close>.
\<close>

definition drawLine ::
  "'n jsval \<Rightarrow> 'n jsval \<Rightarrow> 'n jsval \<Rightarrow> 'n jsval \<Rightarrow> 'n jsval \<Rightarrow> 'n jsval \<Rightarrow> 'n jsval
     \<Rightarrow> 'n effect list" where
  "drawLine x1 y1 x2 y2 strokeColor strokeWidth toolArg =
     (let toolType = (if toolArg = JUndefined then JStr ''draw'' else toolArg) in
      [Ctx Save]
      @ (if toolType = JStr ''erase''
         then [Ctx (SetGlobalCompositeOperation ''destination-out''),
               Ctx (SetStrokeStyle (JStr ''rgba(0,0,0,1)''))]
         else [Ctx (SetGlobalCompositeOperation ''source-over''),
               Ctx (SetStrokeStyle strokeColor)])
      @ [Ctx (SetLineWidth strokeWidth),
         Ctx (SetLineCap ''round''),
         Ctx (SetLineJoin ''round''),
         Ctx BeginPath,
         Ctx (MoveTo x1 y1),
         Ctx (LineTo x2 y2),
         Ctx Stroke,
         Ctx Restore])"

text \<open>\<^verbatim>\<open>clearCanvas\<close> (lines 197-201).\<close>

definition clearCanvas :: "'n::zero engine \<Rightarrow> 'n effect list" where
  "clearCanvas s = [Ctx (ClearRect 0 0 (canvas_width s) (canvas_height s))]"

subsection \<open>Inbound dispatch\<close>

text \<open>
  The callback given to \<^verbatim>\<open>client.subscribe\<close> (lines 51-70). Its argument is the
  message body as \<^verbatim>\<open>JSON.parse\<close> sees it: \<open>None\<close> when the parser throws a
  SyntaxError, \<open>Some data\<close> when it returns \<open>data\<close>. An exception leaves the callback
  uncaught (\<open>Inl\<close>).
\<close>

definition subscribe_handler ::
  "'n::zero jsval option \<Rightarrow> 'n engine \<Rightarrow> js_error + ('n effect list \<times> 'n engine)" where
  "subscribe_handler body s =
     (case body of
        None \<Rightarrow> Inl SyntaxError
      | Some data \<Rightarrow>
          if nullish data then Inl TypeError
          else if js_get data ''userId'' = JStr (userId s) then Inr ([], s)
          else
            Inr ((if js_get data ''type'' = JStr ''draw''
                  then drawLine (js_get data ''startX'') (js_get data ''startY'')
                         (js_get data ''endX'') (js_get data ''endY'')
                         (js_get data ''color'') (js_get data ''lineWidth'') (js_get data ''tool'')
                  else [])
                 @ (if js_get data ''type'' = JStr ''clear'' then clearCanvas s else []),
                 s))"

subsection \<open>History replay\<close>

text \<open>
  \<^verbatim>\<open>loadHistory\<close> (lines 88-108) runs in two parts. The call issues the GET request and
  suspends at \<^verbatim>\<open>await\<close>; the rest runs when the request settles, with the error the
  promise rejected with (\<open>Inl\<close>) or with \<^verbatim>\<open>res.data\<close> (\<open>Inr\<close>).
\<close>

definition history_url :: string where
  "history_url = API_URL @ ''/api/whiteboard/history/'' @ SESSION_ID"

definition loadHistory :: "'n engine \<Rightarrow> 'n effect list \<times> 'n engine" where
  "loadHistory s = ([AxiosGet history_url], s)"

text \<open>
  The arrow function given to \<^verbatim>\<open>forEach\<close> (lines 94-104). Reading a field of an
  entry that is \<^verbatim>\<open>null\<close> throws.
\<close>

definition replay_entry :: "'n::zero jsval \<Rightarrow> js_error + 'n effect list" where
  "replay_entry e =
     (if nullish e then Inl TypeError
      else
        Inr (drawLine (js_get e ''startX'') (js_get e ''startY'')
               (js_get e ''endX'') (js_get e ''endY'')
               (js_get e ''color'') (js_get e ''lineWidth'')
               (js_or (js_get e ''tool'') (JStr ''draw''))))"

text \<open>
  \<^verbatim>\<open>forEach\<close> calls it on the entries in order. An exception ends the loop, and the
  paints made so far stay on the canvas: the result is the effects performed and the
  exception, if any.
\<close>

fun forEach_replay :: "'n::zero jsval list \<Rightarrow> 'n effect list \<times> js_error option" where
  "forEach_replay [] = ([], None)"
| "forEach_replay (e # es) =
     (case replay_entry e of
        Inl err \<Rightarrow> ([], Some err)
      | Inr fx \<Rightarrow> (case forEach_replay es of (fx', r) \<Rightarrow> (fx @ fx', r)))"

text \<open>
  \<^verbatim>\<open>res.data.forEach\<close> is a function only when \<^verbatim>\<open>res.data\<close> is an array; on any
  other value the call throws a TypeError. Every exception is caught and logged.
\<close>

definition loadHistory_settled ::
  "js_error + 'n::zero jsval \<Rightarrow> 'n engine \<Rightarrow> 'n effect list \<times> 'n engine" where
  "loadHistory_settled res s =
     (case res of
        Inl err \<Rightarrow> ([ConsoleError ''History load failed'' err], s)
      | Inr data \<Rightarrow>
          (case data of
             JArr es \<Rightarrow>
               (case forEach_replay es of
                  (fx, None) \<Rightarrow> (fx, s)
                | (fx, Some err) \<Rightarrow> (fx @ [ConsoleError ''History load failed'' err], s))
           | _ \<Rightarrow> ([ConsoleError ''History load failed'' TypeError], s)))"

subsection \<open>Pointer gestures\<close>

text \<open>
  \<^verbatim>\<open>startDrawing\<close> (lines 147-154), \<^verbatim>\<open>draw\<close> (lines 156-193) and
  \<^verbatim>\<open>stopDrawing\<close> (line 195). The rectangle is what \<^verbatim>\<open>getBoundingClientRect()\<close>
  returns during the call.
\<close>

definition startDrawing ::
  "'n::minus mouse_event \<Rightarrow> 'n dom_rect \<Rightarrow> 'n engine \<Rightarrow> 'n effect list \<times> 'n engine" where
  "startDrawing e rect s =
     ([], s\<lparr>isDrawing := True,
            lastPos := \<lparr>px = clientX e - rect_left rect, py = clientY e - rect_top rect\<rparr>\<rparr>)"

text \<open>
  \<^verbatim>\<open>stompClientRef.current?.connected && stompClientRef.current.publish(...)\<close>:
  the guard of both publish sites.
\<close>

definition client_connected :: "'n engine \<Rightarrow> bool" where
  "client_connected s =
     (case stompClientRef s of None \<Rightarrow> False | Some client \<Rightarrow> connected client)"

definition draw ::
  "'n::minus mouse_event \<Rightarrow> 'n dom_rect \<Rightarrow> 'n engine \<Rightarrow> 'n effect list \<times> 'n engine" where
  "draw e rect s =
     (if \<not> isDrawing s then ([], s)
      else
        (let currentPos = \<lparr>px = clientX e - rect_left rect, py = clientY e - rect_top rect\<rparr>
         in
          (drawLine (JNum (px (lastPos s))) (JNum (py (lastPos s)))
             (JNum (px currentPos)) (JNum (py currentPos))
             (JStr (color s)) (JNum (lineWidth s)) (JStr (tool s))
           @ (if client_connected s
              then [StompPublish ''/app/draw''
                      (JObj [(''type'', JStr ''draw''),
                             (''sessionId'', JStr SESSION_ID),
                             (''userId'', JStr (userId s)),
                             (''startX'', JNum (px (lastPos s))),
                             (''startY'', JNum (py (lastPos s))),
                             (''endX'', JNum (px currentPos)),
                             (''endY'', JNum (py currentPos)),
                             (''color'', JStr (color s)),
                             (''lineWidth'', JNum (lineWidth s)),
                             (''tool'', JStr (tool s))])]
              else []),
           s\<lparr>lastPos := currentPos\<rparr>)))"

definition stopDrawing :: "'n engine \<Rightarrow> 'n effect list \<times> 'n engine" where
  "stopDrawing s = ([], s\<lparr>isDrawing := False\<rparr>)"

subsection \<open>Clearing the board\<close>

text \<open>
  \<^verbatim>\<open>handleClear\<close> (lines 203-218) wipes, publishes when connected, issues the DELETE
  request and suspends at \<^verbatim>\<open>await\<close>. Nothing follows the \<^verbatim>\<open>await\<close>: when the
  request settles the function returns, or its promise rejects with the error of the
  request.
\<close>

definition clear_url :: string where
  "clear_url = API_URL @ ''/api/whiteboard/clear/'' @ SESSION_ID"

definition handleClear :: "'n::zero engine \<Rightarrow> 'n effect list \<times> 'n engine" where
  "handleClear s =
     (clearCanvas s
      @ (if client_connected s
         then [StompPublish ''/app/draw''
                 (JObj [(''type'', JStr ''clear''),
                        (''sessionId'', JStr SESSION_ID),
                        (''userId'', JStr (userId s))])]
         else [])
      @ [AxiosDelete clear_url],
      s)"

definition handleClear_settled ::
  "js_error option \<Rightarrow> 'n engine \<Rightarrow> js_error + ('n effect list \<times> 'n engine)" where
  "handleClear_settled res s = (case res of None \<Rightarrow> Inr ([], s) | Some err \<Rightarrow> Inl err)"

subsection \<open>Toolbar\<close>

definition setLineWidth :: "'n \<Rightarrow> 'n engine \<Rightarrow> 'n effect list \<times> 'n engine" where
  "setLineWidth w s = ([], s\<lparr>lineWidth := w\<rparr>)"

definition setTool :: "string \<Rightarrow> 'n engine \<Rightarrow> 'n effect list \<times> 'n engine" where
  "setTool t s = ([], s\<lparr>tool := t\<rparr>)"

definition onChangeColor :: "string \<Rightarrow> 'n engine \<Rightarrow> 'n effect list \<times> 'n engine" where
  "onChangeColor c s = ([], s\<lparr>color := c, tool := ''draw''\<rparr>)"

subsection \<open>Set-up and tear-down\<close>

text \<open>
  \<^verbatim>\<open>resizeCanvas\<close> (lines 32-36) assigns the width and then the height of the
  rectangle to the canvas element. The element holds what its setters make of the two
  numbers, and each assignment resets the bitmap.
\<close>

definition resizeCanvas ::
  "'n dom_canvas \<Rightarrow> 'n dom_rect \<Rightarrow> 'n engine \<Rightarrow> 'n effect list \<times> 'n engine" where
  "resizeCanvas cnv rect s =
     ([SetCanvasWidth (rect_width rect), SetCanvasHeight (rect_height rect)],
      s\<lparr>canvas_width := width_stored cnv (rect_width rect),
        canvas_height := height_stored cnv (rect_height rect)\<rparr>)"

text \<open>
  The effect body (lines 28-77): it resizes, registers the resize listener, calls
  \<^verbatim>\<open>loadHistory()\<close> without awaiting it, creates the client, activates it and stores
  it in the ref. The new client is not connected yet.
\<close>

definition mount ::
  "'n dom_canvas \<Rightarrow> 'n dom_rect \<Rightarrow> 'n engine \<Rightarrow> 'n effect list \<times> 'n engine" where
  "mount cnv rect s =
     (case resizeCanvas cnv rect s of
        (fx1, s1) \<Rightarrow>
          (case loadHistory s1 of
             (fx2, s2) \<Rightarrow>
               (fx1 @ [AddResizeListener] @ fx2 @ [StompActivate],
                s2\<lparr>stompClientRef := Some \<lparr>connected = False\<rparr>\<rparr>)))"

text \<open>
  \<^verbatim>\<open>onConnect\<close> (lines 48-73), called by the client once the broker has accepted the
  connection; the client has set its flag \<^verbatim>\<open>connected\<close> by then.
\<close>

definition onConnect :: "'n engine \<Rightarrow> 'n effect list \<times> 'n engine" where
  "onConnect s =
     ([ConsoleLog ''STOMP connected'', StompSubscribe ''/topic/whiteboard''],
      s\<lparr>connectedUsers := connectedUsers s + 1\<rparr>)"

text \<open>The clean-up of the effect (lines 79-82).\<close>

definition unmount :: "'n engine \<Rightarrow> 'n effect list \<times> 'n engine" where
  "unmount s =
     ((case stompClientRef s of None \<Rightarrow> [] | Some client \<Rightarrow> [StompDeactivate])
      @ [RemoveResizeListener], s)"

subsection \<open>The event loop\<close>

text \<open>
  The callbacks run one at a time, in the order in which the browser, the STOMP client
  and axios call them. The source fixes no order between the settling of the history
  request and the establishment of the broker connection. A run ends at the first
  exception that leaves a callback (what the caller does with it is outside the source);
  its result is the effects performed, the state reached and that exception, if any.
  The events are those of the mounted component, when \<^verbatim>\<open>canvasRef.current\<close> is
  the canvas element: the clean-up \<open>unmount\<close> ends that life and is not among them.
\<close>

datatype 'n event =
    Mount "'n dom_rect"
  | WindowResize "'n dom_rect"
  | HistorySettled "js_error + 'n jsval"
  | StompConnected
  | StompDisconnected
  | StompMessage "'n jsval option"
  | MouseDown "'n mouse_event" "'n dom_rect"
  | MouseMove "'n mouse_event" "'n dom_rect"
  | MouseUp
  | MouseLeave
  | ChangeLineWidth 'n
  | ChangeColor string
  | ClickDraw
  | ClickErase
  | ClickClear
  | ClearSettled "js_error option"

definition set_connected :: "bool \<Rightarrow> 'n engine \<Rightarrow> 'n engine" where
  "set_connected b s =
     s\<lparr>stompClientRef := map_option (\<lambda>client. client\<lparr>connected := b\<rparr>) (stompClientRef s)\<rparr>"

fun step ::
  "'n dom_canvas \<Rightarrow> 'n::{zero,minus} event \<Rightarrow> 'n engine \<Rightarrow> js_error + ('n effect list \<times> 'n engine)" where
  "step cnv (Mount rect) s = Inr (mount cnv rect s)"
| "step cnv (WindowResize rect) s = Inr (resizeCanvas cnv rect s)"
| "step cnv (HistorySettled res) s = Inr (loadHistory_settled res s)"
| "step cnv StompConnected s = Inr (onConnect (set_connected True s))"
| "step cnv StompDisconnected s = Inr ([], set_connected False s)"
| "step cnv (StompMessage body) s = subscribe_handler body s"
| "step cnv (MouseDown e rect) s = Inr (startDrawing e rect s)"
| "step cnv (MouseMove e rect) s = Inr (draw e rect s)"
| "step cnv MouseUp s = Inr (stopDrawing s)"
| "step cnv MouseLeave s = Inr (stopDrawing s)"
| "step cnv (ChangeLineWidth w) s = Inr (setLineWidth w s)"
| "step cnv (ChangeColor c) s = Inr (onChangeColor c s)"
| "step cnv ClickDraw s = Inr (setTool ''draw'' s)"
| "step cnv ClickErase s = Inr (setTool ''erase'' s)"
| "step cnv ClickClear s = Inr (handleClear s)"
| "step cnv (ClearSettled res) s = handleClear_settled res s"

fun run ::
  "'n dom_canvas \<Rightarrow> 'n::{zero,minus} event list \<Rightarrow> 'n engine
     \<Rightarrow> 'n effect list \<times> 'n engine \<times> js_error option"
  where
  "run cnv [] s = ([], s, None)"
| "run cnv (ev # evs) s =
     (case step cnv ev s of
        Inl err \<Rightarrow> ([], s, Some err)
      | Inr (fx, s') \<Rightarrow> (case run cnv evs s' of (fx', s'', r) \<Rightarrow> (fx @ fx', s'', r)))"

subsection \<open>Observations on effects\<close>

text \<open>
  A painted segment is a \<^verbatim>\<open>moveTo\<close> followed at once by a \<^verbatim>\<open>lineTo\<close>: its start
  and its end. A published segment is the start and end of a published envelope of type
  \<^verbatim>\<open>draw\<close>.
\<close>

type_synonym 'n segment = "('n jsval \<times> 'n jsval) \<times> ('n jsval \<times> 'n jsval)"

fun painted_segments :: "'n effect list \<Rightarrow> 'n segment list" where
  "painted_segments (Ctx (MoveTo x1 y1) # Ctx (LineTo x2 y2) # fx) =
     ((x1, y1), (x2, y2)) # painted_segments fx"
| "painted_segments (_ # fx) = painted_segments fx"
| "painted_segments [] = []"

definition published_segments :: "'n effect list \<Rightarrow> 'n segment list" where
  "published_segments fx =
     map (\<lambda>(d, v). ((js_get v ''startX'', js_get v ''startY''),
                     (js_get v ''endX'', js_get v ''endY'')))
       (filter (\<lambda>(d, v). js_get v ''type'' = JStr ''draw'') (published fx))"

text \<open>The position of the pointer on the canvas, as both mouse handlers compute it.\<close>

definition pointer_pos :: "'n::minus mouse_event \<Rightarrow> 'n dom_rect \<Rightarrow> 'n jsval \<times> 'n jsval" where
  "pointer_pos e rect = (JNum (clientX e - rect_left rect), JNum (clientY e - rect_top rect))"

text \<open>One continuous gesture: a pointer-down followed by move samples.\<close>

definition gesture ::
  "'n mouse_event \<Rightarrow> 'n dom_rect \<Rightarrow> ('n mouse_event \<times> 'n dom_rect) list \<Rightarrow> 'n event list" where
  "gesture e0 rect0 moves = MouseDown e0 rect0 # map (\<lambda>(e, rect). MouseMove e rect) moves"

subsection \<open>Concrete inputs\<close>

definition example_engine :: "int engine" where
  "example_engine =
     \<lparr>canvas_width = 800, canvas_height = 600,
      stompClientRef = Some \<lparr>connected = True\<rparr>,
      lastPos = \<lparr>px = 0, py = 0\<rparr>, isDrawing = False,
      color = ''#2D3748'', lineWidth = 4, tool = ''draw'',
      connectedUsers = 1, userId = ''user-a1b2c3d4''\<rparr>"

definition example_offline :: "int engine" where
  "example_offline = example_engine\<lparr>stompClientRef := Some \<lparr>connected = False\<rparr>\<rparr>"

text \<open>
  The setters of the HTML canvas on whole numbers: the value modulo \<open>2^32\<close>, or the
  default size (300 by 150) when that is above \<open>2^31 - 1\<close>.
\<close>

definition unsigned_long_attr :: "int \<Rightarrow> int \<Rightarrow> int" where
  "unsigned_long_attr dflt v =
     (let n = v mod 4294967296 in if n \<le> 2147483647 then n else dflt)"

definition html_canvas :: "int dom_canvas" where
  "html_canvas =
     \<lparr>width_stored = unsigned_long_attr 300, height_stored = unsigned_long_attr 150\<rparr>"

definition example_rect :: "int dom_rect" where
  "example_rect = \<lparr>rect_left = 8, rect_top = 60, rect_width = 800, rect_height = 600\<rparr>"

text \<open>A draw envelope of another participant, in the session \<open>sid\<close>.\<close>

definition peer_envelope :: "string \<Rightarrow> int jsval" where
  "peer_envelope sid =
     JObj [(''type'', JStr ''draw''), (''sessionId'', JStr sid),
           (''userId'', JStr ''user-z9y8x7w6''),
           (''startX'', JNum 0), (''startY'', JNum 0),
           (''endX'', JNum 10), (''endY'', JNum 10),
           (''color'', JStr ''#000000''), (''lineWidth'', JNum 4),
           (''tool'', JStr ''draw'')]"

text \<open>The same envelope as the local participant's own echo.\<close>

definition echo_envelope :: "int jsval" where
  "echo_envelope =
     JObj [(''type'', JStr ''draw''), (''sessionId'', JStr ''default-session''),
           (''userId'', JStr ''user-a1b2c3d4''),
           (''startX'', JNum 0), (''startY'', JNum 0),
           (''endX'', JNum 10), (''endY'', JNum 10),
           (''color'', JStr ''#000000''), (''lineWidth'', JNum 4),
           (''tool'', JStr ''draw'')]"

text \<open>An envelope of another participant with a type the handler does not know.\<close>

definition unknown_envelope :: "int jsval" where
  "unknown_envelope =
     JObj [(''type'', JStr ''rotate''), (''sessionId'', JStr ''default-session''),
           (''userId'', JStr ''user-z9y8x7w6'')]"

text \<open>Two history entries; the third has no \<^verbatim>\<open>tool\<close> field.\<close>

definition segment1 :: "int jsval" where
  "segment1 =
     JObj [(''sessionId'', JStr ''default-session''), (''userId'', JStr ''user-k1''),
           (''startX'', JNum 1), (''startY'', JNum 2),
           (''endX'', JNum 3), (''endY'', JNum 4),
           (''color'', JStr ''#ff0000''), (''lineWidth'', JNum 2),
           (''tool'', JStr ''draw'')]"

definition segment2 :: "int jsval" where
  "segment2 =
     JObj [(''sessionId'', JStr ''default-session''), (''userId'', JStr ''user-k2''),
           (''startX'', JNum 3), (''startY'', JNum 4),
           (''endX'', JNum 7), (''endY'', JNum 9),
           (''color'', JStr ''#00ff00''), (''lineWidth'', JNum 6),
           (''tool'', JStr ''erase'')]"


section \<open>Properties\<close>

subsection \<open>Auxiliary facts\<close>

lemma nullish_js_get: "nullish v \<Longrightarrow> js_get v k = JUndefined"
  by (cases v) (simp_all add: nullish_def js_get_def)

lemma published_append: "published (a @ b) = published a @ published b"
  by (induction a rule: published.induct) simp_all

lemma renderer_calls_append: "renderer_calls (a @ b) = renderer_calls a @ renderer_calls b"
  by (induction a rule: renderer_calls.induct) simp_all

lemma published_drawLine: "published (drawLine x1 y1 x2 y2 c w t) = []"
  by (simp add: drawLine_def)

lemma published_clearCanvas: "published (clearCanvas s) = []"
  by (simp add: clearCanvas_def)

lemma painted_drawLine_then:
  "painted_segments (drawLine x1 y1 x2 y2 c w t @ fx) = ((x1, y1), (x2, y2)) # painted_segments fx"
  by (simp add: drawLine_def)

subsection \<open>Echo suppression\<close>

text \<open>
  C1. An inbound envelope whose \<^verbatim>\<open>userId\<close> is the local participant's is discarded:
  the handler returns with no effect at all, so with no renderer call (neither a paint
  nor a wipe), and leaves the state as it was.
\<close>

theorem echo_suppression:
  "js_get data ''userId'' = JStr (userId s) \<Longrightarrow> subscribe_handler (Some data) s = Inr ([], s)"
  using nullish_js_get [of data "''userId''"]
  by (auto simp: subscribe_handler_def)

theorem echo_suppression_witness:
  "subscribe_handler (Some echo_envelope) example_engine = Inr ([], example_engine)"
  by (rule echo_suppression) (simp add: js_get_def example_engine_def echo_envelope_def)

subsection \<open>Session scope of the inbound path\<close>




subsection \<open>Envelopes of unknown type\<close>

text \<open>
  C4, as amended. An inbound value other than \<^verbatim>\<open>null\<close> whose \<^verbatim>\<open>type\<close> is absent
  or is neither \<^verbatim>\<open>"draw"\<close> nor \<^verbatim>\<open>"clear"\<close> is ignored in silence: the handler
  returns normally with no effect, so with no renderer call, and leaves the whole state
  as it was. There is no decoding step and no \<^verbatim>\<open>MalformedEvent\<close> outcome: the result
  is the normal return that a suppressed echo has too.
\<close>

theorem unknown_type_ignored:
  assumes "\<not> nullish data"
    and "js_get data ''type'' \<noteq> JStr ''draw''"
    and "js_get data ''type'' \<noteq> JStr ''clear''"
  shows "subscribe_handler (Some data) s = Inr ([], s)"
  using assms by (simp add: subscribe_handler_def)

theorem unknown_type_ignored_witness:
  "subscribe_handler (Some unknown_envelope) example_engine = Inr ([], example_engine)"
  by (rule unknown_type_ignored) (simp_all add: unknown_envelope_def nullish_def js_get_def)

text \<open>
  C4, as stated, fails. An envelope of unknown type yields no error outcome: the handler
  returns as it does for the participant's own echo. And the body \<^verbatim>\<open>null\<close>, which has
  no \<^verbatim>\<open>type\<close>, is not dropped: reading \<^verbatim>\<open>data.userId\<close> throws, and the TypeError
  leaves the handler.
\<close>

theorem malformed_event_counterexample:
  "subscribe_handler (Some unknown_envelope) example_engine = Inr ([], example_engine)
   \<and> subscribe_handler (Some unknown_envelope) example_engine =
       subscribe_handler (Some echo_envelope) example_engine
   \<and> js_get (JNull :: int jsval) ''type'' = JUndefined
   \<and> subscribe_handler (Some JNull) example_engine = Inl TypeError"
  by (simp add: unknown_envelope_def echo_envelope_def subscribe_handler_def nullish_def
        js_get_def example_engine_def)

subsection \<open>The eraser\<close>

text \<open>
  C9. With the tool \<^verbatim>\<open>erase\<close>, two paints that differ only in the colour make the
  same calls on the canvas context: the colour has no influence on what is rendered.
  This holds of \<^verbatim>\<open>drawLine\<close> itself and of each path into it: two inbound
  envelopes, or two history entries, that agree on every field but \<^verbatim>\<open>color\<close> and
  have the tool \<^verbatim>\<open>erase\<close> are handled alike, and a local stroke with the eraser
  makes the same renderer calls whatever the selected colour.
\<close>

theorem erase_ignores_color:
  fixes s :: "'n::{zero,minus} engine"
  shows "drawLine x1 y1 x2 y2 c1 w (JStr ''erase'') = drawLine x1 y1 x2 y2 c2 w (JStr ''erase'')
     \<and> ((\<forall>k. k \<noteq> ''color'' \<longrightarrow> js_get (JObj kvs1) k = js_get (JObj kvs2) k)
          \<and> js_get (JObj kvs1) ''tool'' = JStr ''erase''
          \<longrightarrow> subscribe_handler (Some (JObj kvs1)) s = subscribe_handler (Some (JObj kvs2)) s
            \<and> replay_entry (JObj kvs1) = replay_entry (JObj kvs2))
     \<and> renderer_calls (fst (draw e rect (s\<lparr>color := col1, tool := ''erase''\<rparr>))) =
        renderer_calls (fst (draw e rect (s\<lparr>color := col2, tool := ''erase''\<rparr>)))"
proof -
  have a: "drawLine x1 y1 x2 y2 c1 w (JStr ''erase'') = drawLine x1 y1 x2 y2 c2 w (JStr ''erase'')"
    for x1 y1 x2 y2 c1 c2 w :: "'b jsval"
    by (simp add: drawLine_def)
  have b: "subscribe_handler (Some (JObj kvs1)) s = subscribe_handler (Some (JObj kvs2)) s
            \<and> replay_entry (JObj kvs1) = replay_entry (JObj kvs2)"
    if agree: "\<forall>k. k \<noteq> ''color'' \<longrightarrow> js_get (JObj kvs1) k = js_get (JObj kvs2) k"
      and erase: "js_get (JObj kvs1) ''tool'' = JStr ''erase''"
  proof -
    have eq: "js_get (JObj kvs1) k = js_get (JObj kvs2) k"
      if "k \<in> {''userId'', ''type'', ''startX'', ''startY'', ''endX'', ''endY'',
              ''lineWidth'', ''tool''}" for k
      using agree that by auto
    have erase2: "js_get (JObj kvs2) ''tool'' = JStr ''erase''"
      using eq [of "''tool''"] erase by simp
    show ?thesis
      using erase erase2
        a [of _ _ _ _ "js_get (JObj kvs1) ''color''" _ "js_get (JObj kvs2) ''color''"]
      by (simp add: subscribe_handler_def replay_entry_def nullish_def eq js_or_def truthy_def)
  qed
  have c: "renderer_calls (fst (draw e rect (s\<lparr>color := col1, tool := ''erase''\<rparr>))) =
        renderer_calls (fst (draw e rect (s\<lparr>color := col2, tool := ''erase''\<rparr>)))"
    by (simp add: draw_def Let_def renderer_calls_append drawLine_def client_connected_def)
  from a b c show ?thesis by blast
qed

theorem erase_ignores_color_witness:
  "drawLine (JNum (1::int)) (JNum 2) (JNum 3) (JNum 4) (JStr ''#ff0000'') (JNum 6) (JStr ''erase'') =
   drawLine (JNum 1) (JNum 2) (JNum 3) (JNum 4) (JStr ''#00ff00'') (JNum 6) (JStr ''erase'')
   \<and> replay_entry segment2 =
      replay_entry
        (JObj [(''sessionId'', JStr ''default-session''), (''userId'', JStr ''user-k2''),
               (''startX'', JNum 3), (''startY'', JNum 4),
               (''endX'', JNum 7), (''endY'', JNum 9),
               (''color'', JStr ''#123456''), (''lineWidth'', JNum 6),
               (''tool'', JStr ''erase'')])"
proof -
  let ?kvs1 = "[(''sessionId'', JStr ''default-session''), (''userId'', JStr ''user-k2''),
           (''startX'', JNum 3), (''startY'', JNum 4),
           (''endX'', JNum 7), (''endY'', JNum 9),
           (''color'', JStr ''#00ff00''), (''lineWidth'', JNum (6::int)),
           (''tool'', JStr ''erase'')]"
  let ?kvs2 = "[(''sessionId'', JStr ''default-session''), (''userId'', JStr ''user-k2''),
           (''startX'', JNum 3), (''startY'', JNum 4),
           (''endX'', JNum 7), (''endY'', JNum 9),
           (''color'', JStr ''#123456''), (''lineWidth'', JNum (6::int)),
           (''tool'', JStr ''erase'')]"
  have agree: "\<forall>k. k \<noteq> ''color'' \<longrightarrow> js_get (JObj ?kvs1) k = js_get (JObj ?kvs2) k"
    by (simp add: js_get_def)
  have erase: "js_get (JObj ?kvs1) ''tool'' = JStr ''erase''"
    by (simp add: js_get_def)
  from erase_ignores_color
         [of "JNum 1" "JNum 2" "JNum 3" "JNum 4" "JStr ''#ff0000''" "JNum 6" "JStr ''#00ff00''"
             ?kvs1 ?kvs2 example_engine]
       agree erase
  show ?thesis
    unfolding segment2_def by blast
qed

subsection \<open>Replay of an entry without a tool\<close>



subsection \<open>Publishing while disconnected\<close>

text \<open>
  C5. While the client is not connected (the ref is empty or its flag \<^verbatim>\<open>connected\<close>
  is false), both publish sites do nothing: \<^verbatim>\<open>draw\<close> only paints and moves the
  anchor, \<^verbatim>\<open>handleClear\<close> only wipes and issues the DELETE request. Nothing is
  published, no exception is raised, and no envelope is kept anywhere: the connection
  coming up afterwards publishes nothing either.
\<close>

theorem disconnected_publish_noop:
  fixes s :: "'n::{zero,minus} engine"
  assumes "\<not> client_connected s"
  shows "draw e rect s =
           (if isDrawing s
            then (drawLine (JNum (px (lastPos s))) (JNum (py (lastPos s)))
                    (JNum (clientX e - rect_left rect)) (JNum (clientY e - rect_top rect))
                    (JStr (color s)) (JNum (lineWidth s)) (JStr (tool s)),
                  s\<lparr>lastPos :=
                      \<lparr>px = clientX e - rect_left rect, py = clientY e - rect_top rect\<rparr>\<rparr>)
            else ([], s))
       \<and> handleClear s = (clearCanvas s @ [AxiosDelete clear_url], s)
       \<and> published (fst (draw e rect s)) = []
       \<and> published (fst (handleClear s)) = []
       \<and> published (fst (run cnv [MouseMove e rect, ClickClear, StompConnected] s)) = []
       \<and> snd (snd (run cnv [MouseMove e rect, ClickClear, StompConnected] s)) = None"
  using assms
  by (simp add: draw_def handleClear_def Let_def published_append published_drawLine
        published_clearCanvas onConnect_def client_connected_def split: prod.splits)

theorem disconnected_publish_noop_witness:
  "\<not> client_connected (example_offline\<lparr>isDrawing := True\<rparr>)
   \<and> handleClear (example_offline\<lparr>isDrawing := True\<rparr>) =
       (clearCanvas (example_offline\<lparr>isDrawing := True\<rparr>) @ [AxiosDelete clear_url],
        example_offline\<lparr>isDrawing := True\<rparr>)
   \<and> published (fst (draw \<lparr>clientX = 23, clientY = 85\<rparr> example_rect
         (example_offline\<lparr>isDrawing := True\<rparr>))) = []
   \<and> published (fst (run html_canvas [MouseMove \<lparr>clientX = 23, clientY = 85\<rparr> example_rect,
         ClickClear, StompConnected] (example_offline\<lparr>isDrawing := True\<rparr>))) = []"
proof -
  have off: "\<not> client_connected (example_offline\<lparr>isDrawing := True\<rparr>)"
    by (simp add: example_offline_def example_engine_def client_connected_def)
  from disconnected_publish_noop
         [OF off, where e = "\<lparr>clientX = 23, clientY = 85\<rparr>" and rect = example_rect
            and cnv = html_canvas]
       off
  show ?thesis
    by blast
qed

subsection \<open>The clear action\<close>

text \<open>
  C8. A clear first wipes the local surface, then publishes a \<^verbatim>\<open>clear\<close> envelope if
  the client is connected (and skips it otherwise), then issues the DELETE request for
  the session's history. When that request fails, the error leaves \<^verbatim>\<open>handleClear\<close>
  and nothing else happens: the wipe and the broadcast stay as they were made.
\<close>

theorem clear_sequence_no_rollback:
  fixes s :: "'n::{zero,minus} engine"
  shows "handleClear s =
           (Ctx (ClearRect 0 0 (canvas_width s) (canvas_height s))
            # (if client_connected s
               then [StompPublish ''/app/draw''
                       (JObj [(''type'', JStr ''clear''), (''sessionId'', JStr SESSION_ID),
                              (''userId'', JStr (userId s))])]
               else [])
            @ [AxiosDelete clear_url], s)
       \<and> run cnv [ClickClear, ClearSettled (Some err)] s = (fst (handleClear s), s, Some err)
       \<and> run cnv [ClickClear, ClearSettled None] s = (fst (handleClear s), s, None)"
  by (simp add: handleClear_def clearCanvas_def handleClear_settled_def)

theorem clear_sequence_no_rollback_witness:
  "run html_canvas [ClickClear, ClearSettled (Some AxiosError)] example_engine =
     ([Ctx (ClearRect 0 0 800 600),
       StompPublish ''/app/draw''
         (JObj [(''type'', JStr ''clear''), (''sessionId'', JStr ''default-session''),
                (''userId'', JStr ''user-a1b2c3d4'')]),
       AxiosDelete ''http://localhost:8080/api/whiteboard/clear/default-session''],
      example_engine, Some AxiosError)"
  using clear_sequence_no_rollback
    [where s = example_engine and err = AxiosError and cnv = html_canvas]
  by (simp add: example_engine_def client_connected_def SESSION_ID_def clear_url_def API_URL_def
        handleClear_def clearCanvas_def handleClear_settled_def)

subsection \<open>History replay\<close>

lemma forEach_replay_objects:
  "\<forall>e \<in> set es. \<not> nullish e \<Longrightarrow>
   forEach_replay es =
     (concat (map (\<lambda>e. drawLine (js_get e ''startX'') (js_get e ''startY'')
                          (js_get e ''endX'') (js_get e ''endY'')
                          (js_get e ''color'') (js_get e ''lineWidth'')
                          (js_or (js_get e ''tool'') (JStr ''draw''))) es), None)"
  by (induction es) (simp_all add: replay_entry_def)

lemma published_forEach_replay: "forEach_replay es = (fx, r) \<Longrightarrow> published fx = []"
proof (induction es arbitrary: fx r)
  case Nil
  then show ?case by simp
next
  case (Cons e es)
  then show ?case
    by (auto simp: replay_entry_def published_append published_drawLine
        split: if_splits prod.splits)
qed

lemma published_loadHistory_settled: "published (fst (loadHistory_settled res s)) = []"
  by (auto simp: loadHistory_settled_def published_append
      split: sum.splits jsval.splits prod.splits option.splits
      dest: published_forEach_replay)

lemma loadHistory_settled_state: "snd (loadHistory_settled res s) = s"
  by (auto simp: loadHistory_settled_def split: sum.splits jsval.splits prod.splits option.splits)

lemma loadHistory_settled_effects:
  "fst (loadHistory_settled res s1) = fst (loadHistory_settled res s2)"
  by (auto simp: loadHistory_settled_def split: sum.splits jsval.splits prod.splits option.splits)

text \<open>The tool that replay hands to \<^verbatim>\<open>drawLine\<close> erases only when the entry's does.\<close>

lemma js_or_draw_erase: "(js_or t (JStr ''draw'') = JStr ''erase'') = (t = JStr ''erase'')"
  by (auto simp: js_or_def truthy_def)

lemma js_or_draw_defined: "js_or t (JStr ''draw'') \<noteq> JUndefined"
  by (auto simp: js_or_def truthy_def)

text \<open>The canvas calls of one replayed entry.\<close>

lemma renderer_calls_replay_drawLine:
  "renderer_calls (drawLine x1 y1 x2 y2 c w (js_or t (JStr ''draw''))) =
     [Save,
      SetGlobalCompositeOperation
        (if t = JStr ''erase'' then ''destination-out'' else ''source-over''),
      SetStrokeStyle (if t = JStr ''erase'' then JStr ''rgba(0,0,0,1)'' else c),
      SetLineWidth w, SetLineCap ''round'', SetLineJoin ''round'', BeginPath,
      MoveTo x1 y1, LineTo x2 y2, Stroke, Restore]"
  by (simp add: drawLine_def js_or_draw_erase js_or_draw_defined)

lemma renderer_calls_concat:
  "renderer_calls (concat (map f es)) = concat (map (\<lambda>e. renderer_calls (f e)) es)"
  by (induction es) (simp_all add: renderer_calls_append)

lemma painted_segments_concat_drawLine:
  "painted_segments (concat (map (\<lambda>e. drawLine (x1 e) (y1 e) (x2 e) (y2 e) (c e) (w e) (t e)) es)) =
     map (\<lambda>e. ((x1 e, y1 e), (x2 e, y2 e))) es"
  by (induction es) (simp_all add: painted_drawLine_then)

lemma replay_objects:
  fixes s :: "'n::zero engine"
  assumes "\<forall>e \<in> set es. \<not> nullish e"
  shows "loadHistory_settled (Inr (JArr es)) s =
           (concat (map (\<lambda>e. drawLine (js_get e ''startX'') (js_get e ''startY'')
                          (js_get e ''endX'') (js_get e ''endY'')
                          (js_get e ''color'') (js_get e ''lineWidth'')
                          (js_or (js_get e ''tool'') (JStr ''draw''))) es), s)"
  using assms by (simp add: loadHistory_settled_def forEach_replay_objects)

lemma replay_objects_renderer_calls:
  fixes s :: "'n::zero engine"
  assumes "\<forall>e \<in> set es. \<not> nullish e"
  shows "renderer_calls (fst (loadHistory_settled (Inr (JArr es)) s)) =
           concat (map (\<lambda>e.
             [Save,
              SetGlobalCompositeOperation
                (if js_get e ''tool'' = JStr ''erase'' then ''destination-out''
                 else ''source-over''),
              SetStrokeStyle
                (if js_get e ''tool'' = JStr ''erase'' then JStr ''rgba(0,0,0,1)''
                 else js_get e ''color''),
              SetLineWidth (js_get e ''lineWidth''),
              SetLineCap ''round'', SetLineJoin ''round'', BeginPath,
              MoveTo (js_get e ''startX'') (js_get e ''startY''),
              LineTo (js_get e ''endX'') (js_get e ''endY''),
              Stroke, Restore]) es)"
  by (simp add: replay_objects [OF assms] renderer_calls_concat renderer_calls_replay_drawLine)

lemma replay_objects_painted_segments:
  fixes s :: "'n::zero engine"
  assumes "\<forall>e \<in> set es. \<not> nullish e"
  shows "painted_segments (fst (loadHistory_settled (Inr (JArr es)) s)) =
           map (\<lambda>e. ((js_get e ''startX'', js_get e ''startY''),
                      (js_get e ''endX'', js_get e ''endY''))) es"
  by (simp add: replay_objects [OF assms] painted_segments_concat_drawLine)

text \<open>
  C7. Replaying a fetched sequence of segments paints every entry, in stored order, and
  does nothing else: the renderer receives, entry after entry, the eleven canvas calls of
  one stroke from the entry's start to its end, and the segments painted are the entries'
  own, in order. Whatever the response, replay publishes nothing and leaves the state as
  it was; its effects depend on the response alone, so a second replay of the same
  sequence makes the same renderer calls as the first.
\<close>

theorem replay_pure_deterministic:
  fixes s :: "'n::{zero,minus} engine"
  shows "((\<forall>e \<in> set es. \<not> nullish e) \<longrightarrow>
          loadHistory_settled (Inr (JArr es)) s =
            (concat (map (\<lambda>e. drawLine (js_get e ''startX'') (js_get e ''startY'')
                          (js_get e ''endX'') (js_get e ''endY'')
                          (js_get e ''color'') (js_get e ''lineWidth'')
                          (js_or (js_get e ''tool'') (JStr ''draw''))) es), s)
        \<and> renderer_calls (fst (loadHistory_settled (Inr (JArr es)) s)) =
            concat (map (\<lambda>e.
              [Save,
               SetGlobalCompositeOperation
                 (if js_get e ''tool'' = JStr ''erase'' then ''destination-out''
                  else ''source-over''),
               SetStrokeStyle
                 (if js_get e ''tool'' = JStr ''erase'' then JStr ''rgba(0,0,0,1)''
                  else js_get e ''color''),
               SetLineWidth (js_get e ''lineWidth''),
               SetLineCap ''round'', SetLineJoin ''round'', BeginPath,
               MoveTo (js_get e ''startX'') (js_get e ''startY''),
               LineTo (js_get e ''endX'') (js_get e ''endY''),
               Stroke, Restore]) es)
        \<and> painted_segments (fst (loadHistory_settled (Inr (JArr es)) s)) =
            map (\<lambda>e. ((js_get e ''startX'', js_get e ''startY''),
                       (js_get e ''endX'', js_get e ''endY''))) es)
       \<and> published (fst (loadHistory_settled res s)) = []
       \<and> snd (loadHistory_settled res s) = s
       \<and> fst (loadHistory_settled res s') = fst (loadHistory_settled res s)
       \<and> fst (run cnv [HistorySettled res, HistorySettled res] s) =
           fst (loadHistory_settled res s) @ fst (loadHistory_settled res s)
       \<and> renderer_calls (fst (run cnv [HistorySettled res, HistorySettled res] s)) =
           renderer_calls (fst (loadHistory_settled res s))
           @ renderer_calls (fst (loadHistory_settled res s))"
proof -
  have twice: "fst (run cnv [HistorySettled res, HistorySettled res] s) =
           fst (loadHistory_settled res s) @ fst (loadHistory_settled res s)"
  proof -
    obtain fx where e: "loadHistory_settled res s = (fx, s)"
      using loadHistory_settled_state [of res s] by (cases "loadHistory_settled res s") simp
    show ?thesis
      by (simp add: e)
  qed
  have twice_calls:
    "renderer_calls (fst (run cnv [HistorySettled res, HistorySettled res] s)) =
       renderer_calls (fst (loadHistory_settled res s))
       @ renderer_calls (fst (loadHistory_settled res s))"
    unfolding twice by (rule renderer_calls_append)
  from twice twice_calls published_loadHistory_settled [of res s]
    loadHistory_settled_state [of res s] loadHistory_settled_effects [of res s' s]
    replay_objects [of es s] replay_objects_renderer_calls [of es s]
    replay_objects_painted_segments [of es s]
  show ?thesis
    by blast
qed

theorem replay_pure_deterministic_witness:
  "renderer_calls (fst (loadHistory_settled (Inr (JArr [segment1, segment2])) example_engine)) =
     [Save, SetGlobalCompositeOperation ''source-over'', SetStrokeStyle (JStr ''#ff0000''),
      SetLineWidth (JNum 2), SetLineCap ''round'', SetLineJoin ''round'', BeginPath,
      MoveTo (JNum 1) (JNum 2), LineTo (JNum 3) (JNum 4), Stroke, Restore,
      Save, SetGlobalCompositeOperation ''destination-out'',
      SetStrokeStyle (JStr ''rgba(0,0,0,1)''),
      SetLineWidth (JNum 6), SetLineCap ''round'', SetLineJoin ''round'', BeginPath,
      MoveTo (JNum 3) (JNum 4), LineTo (JNum 7) (JNum 9), Stroke, Restore]
   \<and> painted_segments
       (fst (loadHistory_settled (Inr (JArr [segment1, segment2])) example_engine)) =
     [((JNum 1, JNum 2), (JNum 3, JNum 4)), ((JNum 3, JNum 4), (JNum 7, JNum 9))]
   \<and> published (fst (loadHistory_settled (Inr (JArr [segment1, segment2])) example_engine)) = []
   \<and> snd (loadHistory_settled (Inr (JArr [segment1, segment2])) example_engine) =
       example_engine"
proof -
  have objs: "\<forall>e \<in> set [segment1, segment2]. \<not> nullish e"
    by (simp add: segment1_def segment2_def nullish_def)
  have fields:
    "js_get segment1 ''startX'' = JNum 1" "js_get segment1 ''startY'' = JNum 2"
    "js_get segment1 ''endX'' = JNum 3" "js_get segment1 ''endY'' = JNum 4"
    "js_get segment1 ''color'' = JStr ''#ff0000''" "js_get segment1 ''lineWidth'' = JNum 2"
    "js_get segment1 ''tool'' = JStr ''draw''"
    "js_get segment2 ''startX'' = JNum 3" "js_get segment2 ''startY'' = JNum 4"
    "js_get segment2 ''endX'' = JNum 7" "js_get segment2 ''endY'' = JNum 9"
    "js_get segment2 ''color'' = JStr ''#00ff00''" "js_get segment2 ''lineWidth'' = JNum 6"
    "js_get segment2 ''tool'' = JStr ''erase''"
    by (simp_all add: segment1_def segment2_def js_get_def)
  from replay_pure_deterministic
         [where es = "[segment1, segment2]" and s = example_engine
            and res = "Inr (JArr [segment1, segment2])" and s' = example_engine
            and cnv = html_canvas]
       objs
  have "renderer_calls
          (fst (loadHistory_settled (Inr (JArr [segment1, segment2])) example_engine)) =
        concat (map (\<lambda>e.
              [Save,
               SetGlobalCompositeOperation
                 (if js_get e ''tool'' = JStr ''erase'' then ''destination-out''
                  else ''source-over''),
               SetStrokeStyle
                 (if js_get e ''tool'' = JStr ''erase'' then JStr ''rgba(0,0,0,1)''
                  else js_get e ''color''),
               SetLineWidth (js_get e ''lineWidth''),
               SetLineCap ''round'', SetLineJoin ''round'', BeginPath,
               MoveTo (js_get e ''startX'') (js_get e ''startY''),
               LineTo (js_get e ''endX'') (js_get e ''endY''),
               Stroke, Restore]) [segment1, segment2])"
    and "painted_segments
          (fst (loadHistory_settled (Inr (JArr [segment1, segment2])) example_engine)) =
         map (\<lambda>e. ((js_get e ''startX'', js_get e ''startY''),
                    (js_get e ''endX'', js_get e ''endY''))) [segment1, segment2]"
    and "published
          (fst (loadHistory_settled (Inr (JArr [segment1, segment2])) example_engine)) = []"
    and "snd (loadHistory_settled (Inr (JArr [segment1, segment2])) example_engine) =
          example_engine"
    by blast+
  then show ?thesis
    by (simp add: fields)
qed

subsection \<open>History replay and the live subscription\<close>

text \<open>
  C3, as amended. When the history request returns two segments, replay paints the
  first and then the second, in that order and with nothing in between: the renderer
  receives the canvas calls of the stroke of the first segment and then those of the
  second, and nothing else. The set-up issues the history request and activates the
  transport in the same callback, without waiting for the response, so these paints are
  not ordered before the live subscription.
\<close>

theorem history_replay_order:
  fixes s :: "'n::{zero,minus} engine"
  assumes "\<not> nullish e1" and "\<not> nullish e2"
  shows "renderer_calls (fst (loadHistory_settled (Inr (JArr [e1, e2])) s)) =
           [Save,
            SetGlobalCompositeOperation
              (if js_get e1 ''tool'' = JStr ''erase'' then ''destination-out''
               else ''source-over''),
            SetStrokeStyle
              (if js_get e1 ''tool'' = JStr ''erase'' then JStr ''rgba(0,0,0,1)''
               else js_get e1 ''color''),
            SetLineWidth (js_get e1 ''lineWidth''),
            SetLineCap ''round'', SetLineJoin ''round'', BeginPath,
            MoveTo (js_get e1 ''startX'') (js_get e1 ''startY''),
            LineTo (js_get e1 ''endX'') (js_get e1 ''endY''),
            Stroke, Restore,
            Save,
            SetGlobalCompositeOperation
              (if js_get e2 ''tool'' = JStr ''erase'' then ''destination-out''
               else ''source-over''),
            SetStrokeStyle
              (if js_get e2 ''tool'' = JStr ''erase'' then JStr ''rgba(0,0,0,1)''
               else js_get e2 ''color''),
            SetLineWidth (js_get e2 ''lineWidth''),
            SetLineCap ''round'', SetLineJoin ''round'', BeginPath,
            MoveTo (js_get e2 ''startX'') (js_get e2 ''startY''),
            LineTo (js_get e2 ''endX'') (js_get e2 ''endY''),
            Stroke, Restore]
       \<and> painted_segments (fst (loadHistory_settled (Inr (JArr [e1, e2])) s)) =
           [((js_get e1 ''startX'', js_get e1 ''startY''),
             (js_get e1 ''endX'', js_get e1 ''endY'')),
            ((js_get e2 ''startX'', js_get e2 ''startY''),
             (js_get e2 ''endX'', js_get e2 ''endY''))]
       \<and> fst (loadHistory_settled (Inr (JArr [e1, e2])) s) =
           map Ctx (renderer_calls (fst (loadHistory_settled (Inr (JArr [e1, e2])) s)))
       \<and> fst (mount cnv rect s) =
           [SetCanvasWidth (rect_width rect), SetCanvasHeight (rect_height rect),
            AddResizeListener, AxiosGet history_url, StompActivate]
       \<and> fst (run cnv [Mount rect, HistorySettled (Inr (JArr [e1, e2]))] s) =
           fst (mount cnv rect s) @ fst (loadHistory_settled (Inr (JArr [e1, e2])) s)
       \<and> renderer_calls (fst (run cnv [Mount rect, HistorySettled (Inr (JArr [e1, e2]))] s)) =
           renderer_calls (fst (loadHistory_settled (Inr (JArr [e1, e2])) s))"
proof -
  have objs: "\<forall>e \<in> set [e1, e2]. \<not> nullish e"
    using assms by simp
  have calls: "renderer_calls (fst (loadHistory_settled (Inr (JArr [e1, e2])) s)) =
      concat (map (\<lambda>e.
             [Save,
              SetGlobalCompositeOperation
                (if js_get e ''tool'' = JStr ''erase'' then ''destination-out''
                 else ''source-over''),
              SetStrokeStyle
                (if js_get e ''tool'' = JStr ''erase'' then JStr ''rgba(0,0,0,1)''
                 else js_get e ''color''),
              SetLineWidth (js_get e ''lineWidth''),
              SetLineCap ''round'', SetLineJoin ''round'', BeginPath,
              MoveTo (js_get e ''startX'') (js_get e ''startY''),
              LineTo (js_get e ''endX'') (js_get e ''endY''),
              Stroke, Restore]) [e1, e2])"
    by (rule replay_objects_renderer_calls [OF objs])
  have segs: "painted_segments (fst (loadHistory_settled (Inr (JArr [e1, e2])) s)) =
      map (\<lambda>e. ((js_get e ''startX'', js_get e ''startY''),
                 (js_get e ''endX'', js_get e ''endY''))) [e1, e2]"
    by (rule replay_objects_painted_segments [OF objs])
  have only: "fst (loadHistory_settled (Inr (JArr [e1, e2])) s) =
           map Ctx (renderer_calls (fst (loadHistory_settled (Inr (JArr [e1, e2])) s)))"
    by (simp add: replay_objects [OF objs] drawLine_def)
  have m: "fst (mount cnv rect s) =
           [SetCanvasWidth (rect_width rect), SetCanvasHeight (rect_height rect),
            AddResizeListener, AxiosGet history_url, StompActivate]"
    by (simp add: mount_def resizeCanvas_def loadHistory_def)
  have r: "fst (run cnv [Mount rect, HistorySettled (Inr (JArr [e1, e2]))] s) =
           fst (mount cnv rect s) @ fst (loadHistory_settled (Inr (JArr [e1, e2])) s)"
  proof -
    obtain fx1 s1 where mt: "mount cnv rect s = (fx1, s1)"
      by (cases "mount cnv rect s")
    obtain fx2 where lh: "loadHistory_settled (Inr (JArr [e1, e2])) s1 = (fx2, s1)"
      using loadHistory_settled_state [of "Inr (JArr [e1, e2])" s1]
      by (cases "loadHistory_settled (Inr (JArr [e1, e2])) s1") simp
    have "fx2 = fst (loadHistory_settled (Inr (JArr [e1, e2])) s)"
      using loadHistory_settled_effects [of "Inr (JArr [e1, e2])" s1 s] by (simp add: lh)
    then show ?thesis
      by (simp add: mt lh)
  qed
  have rc: "renderer_calls (fst (run cnv [Mount rect, HistorySettled (Inr (JArr [e1, e2]))] s)) =
           renderer_calls (fst (loadHistory_settled (Inr (JArr [e1, e2])) s))"
    unfolding r by (simp add: renderer_calls_append m)
  show ?thesis
    using calls segs only m r rc by simp
qed

theorem history_replay_order_witness:
  "renderer_calls
     (fst (run html_canvas [Mount example_rect, HistorySettled (Inr (JArr [segment1, segment2]))]
             example_engine)) =
     [Save, SetGlobalCompositeOperation ''source-over'', SetStrokeStyle (JStr ''#ff0000''),
      SetLineWidth (JNum 2), SetLineCap ''round'', SetLineJoin ''round'', BeginPath,
      MoveTo (JNum 1) (JNum 2), LineTo (JNum 3) (JNum 4), Stroke, Restore,
      Save, SetGlobalCompositeOperation ''destination-out'',
      SetStrokeStyle (JStr ''rgba(0,0,0,1)''),
      SetLineWidth (JNum 6), SetLineCap ''round'', SetLineJoin ''round'', BeginPath,
      MoveTo (JNum 3) (JNum 4), LineTo (JNum 7) (JNum 9), Stroke, Restore]
   \<and> painted_segments
       (fst (loadHistory_settled (Inr (JArr [segment1, segment2])) example_engine)) =
     [((JNum 1, JNum 2), (JNum 3, JNum 4)), ((JNum 3, JNum 4), (JNum 7, JNum 9))]
   \<and> fst (mount html_canvas example_rect example_engine) =
     [SetCanvasWidth 800, SetCanvasHeight 600, AddResizeListener, AxiosGet history_url,
      StompActivate]"
proof -
  have objs: "\<not> nullish segment1" "\<not> nullish segment2"
    by (simp_all add: segment1_def segment2_def nullish_def)
  have fields:
    "js_get segment1 ''startX'' = JNum 1" "js_get segment1 ''startY'' = JNum 2"
    "js_get segment1 ''endX'' = JNum 3" "js_get segment1 ''endY'' = JNum 4"
    "js_get segment1 ''color'' = JStr ''#ff0000''" "js_get segment1 ''lineWidth'' = JNum 2"
    "js_get segment1 ''tool'' = JStr ''draw''"
    "js_get segment2 ''startX'' = JNum 3" "js_get segment2 ''startY'' = JNum 4"
    "js_get segment2 ''endX'' = JNum 7" "js_get segment2 ''endY'' = JNum 9"
    "js_get segment2 ''color'' = JStr ''#00ff00''" "js_get segment2 ''lineWidth'' = JNum 6"
    "js_get segment2 ''tool'' = JStr ''erase''"
    by (simp_all add: segment1_def segment2_def js_get_def)
  have rect: "rect_width example_rect = 800" "rect_height example_rect = 600"
    by (simp_all add: example_rect_def)
  from history_replay_order
         [OF objs, where s = example_engine and cnv = html_canvas and rect = example_rect]
  show ?thesis
    by (simp add: fields rect)
qed

text \<open>
  C3, as stated, fails. The connection may be established before the history request
  settles: then the subscription is active, and a peer's segment is painted, before the
  two history segments are.
\<close>

theorem history_before_live_counterexample:
  "run html_canvas
     [Mount example_rect, StompConnected,
      StompMessage (Some (peer_envelope ''default-session'')),
      HistorySettled (Inr (JArr [segment1, segment2]))] example_engine =
     ([SetCanvasWidth 800, SetCanvasHeight 600, AddResizeListener, AxiosGet history_url,
       StompActivate, ConsoleLog ''STOMP connected'', StompSubscribe ''/topic/whiteboard'']
      @ map Ctx
          [Save, SetGlobalCompositeOperation ''source-over'', SetStrokeStyle (JStr ''#000000''),
           SetLineWidth (JNum 4), SetLineCap ''round'', SetLineJoin ''round'', BeginPath,
           MoveTo (JNum 0) (JNum 0), LineTo (JNum 10) (JNum 10), Stroke, Restore]
      @ map Ctx
          [Save, SetGlobalCompositeOperation ''source-over'', SetStrokeStyle (JStr ''#ff0000''),
           SetLineWidth (JNum 2), SetLineCap ''round'', SetLineJoin ''round'', BeginPath,
           MoveTo (JNum 1) (JNum 2), LineTo (JNum 3) (JNum 4), Stroke, Restore]
      @ map Ctx
          [Save, SetGlobalCompositeOperation ''destination-out'',
           SetStrokeStyle (JStr ''rgba(0,0,0,1)''),
           SetLineWidth (JNum 6), SetLineCap ''round'', SetLineJoin ''round'', BeginPath,
           MoveTo (JNum 3) (JNum 4), LineTo (JNum 7) (JNum 9), Stroke, Restore],
      example_engine\<lparr>stompClientRef := Some \<lparr>connected = True\<rparr>, connectedUsers := 2\<rparr>,
      None)
   \<and> painted_segments
       (fst (run html_canvas
               [Mount example_rect, StompConnected,
                StompMessage (Some (peer_envelope ''default-session'')),
                HistorySettled (Inr (JArr [segment1, segment2]))] example_engine)) =
     [((JNum 0, JNum 0), (JNum 10, JNum 10)),
      ((JNum 1, JNum 2), (JNum 3, JNum 4)),
      ((JNum 3, JNum 4), (JNum 7, JNum 9))]"
  by (simp add: mount_def resizeCanvas_def loadHistory_def onConnect_def set_connected_def
        subscribe_handler_def loadHistory_settled_def replay_entry_def nullish_def js_get_def
        js_or_def truthy_def peer_envelope_def segment1_def segment2_def example_engine_def
        example_rect_def html_canvas_def unsigned_long_attr_def drawLine_def)

subsection \<open>Gestures\<close>

text \<open>
  While drawing, a run of move samples paints one segment per sample, from the anchor to
  the first position and then from each position to the next; when the client is
  connected it publishes the same segments.
\<close>

lemma run_moves:
  fixes s :: "'n::{zero,minus} engine"
  assumes "isDrawing s"
  shows "snd (snd (run cnv (map (\<lambda>(e, rect). MouseMove e rect) moves) s)) = None
       \<and> painted_segments (fst (run cnv (map (\<lambda>(e, rect). MouseMove e rect) moves) s)) =
           zip ((JNum (px (lastPos s)), JNum (py (lastPos s)))
                # map (\<lambda>(e, rect). pointer_pos e rect) moves)
               (map (\<lambda>(e, rect). pointer_pos e rect) moves)
       \<and> published_segments (fst (run cnv (map (\<lambda>(e, rect). MouseMove e rect) moves) s)) =
           (if client_connected s
            then zip ((JNum (px (lastPos s)), JNum (py (lastPos s)))
                      # map (\<lambda>(e, rect). pointer_pos e rect) moves)
                     (map (\<lambda>(e, rect). pointer_pos e rect) moves)
            else [])"
  using assms
proof (induction moves arbitrary: s)
  case Nil
  show ?case by (simp add: published_segments_def)
next
  case (Cons m moves)
  obtain e rect where m: "m = (e, rect)" by (cases m)
  define s1 where "s1 = snd (draw e rect s)"
  have d: "isDrawing s1" "client_connected s1 = client_connected s"
    "(JNum (px (lastPos s1)), JNum (py (lastPos s1))) = pointer_pos e rect"
    using Cons.prems
    by (simp_all add: s1_def draw_def Let_def client_connected_def pointer_pos_def)
  note ih = Cons.IH [OF d(1), unfolded d(2) d(3)]
  obtain fx' s'' r where r: "run cnv (map (\<lambda>(e, rect). MouseMove e rect) moves) s1 = (fx', s'', r)"
    by (cases "run cnv (map (\<lambda>(e, rect). MouseMove e rect) moves) s1") auto
  have run_eq: "run cnv (map (\<lambda>(e, rect). MouseMove e rect) (m # moves)) s =
                  (fst (draw e rect s) @ fx', s'', r)"
    using r by (auto simp: m s1_def split: prod.splits)
  show ?case
    using ih Cons.prems unfolding run_eq r
    by (simp add: draw_def Let_def painted_drawLine_then published_segments_def published_append
          published_drawLine pointer_pos_def js_get_def m)
qed

text \<open>
  C6. In one gesture, a pointer-down followed by \<open>N\<close> move samples, exactly \<open>N\<close>
  segments are painted; segment \<open>i\<close> ends at the position of move \<open>i\<close>; the first
  segment starts at the pointer-down position and every later one starts where the one
  before it ended. The segments published, when the client is connected, are the same.
  Pointer-up and pointer-leave only end the gesture: they produce no segment.
\<close>

theorem gesture_anchor_chaining:
  fixes s :: "'n::{zero,minus} engine"
  shows
    "(let fx = fst (run cnv (gesture e0 rect0 moves) s);
          segs = painted_segments fx
      in snd (snd (run cnv (gesture e0 rect0 moves) s)) = None
       \<and> length segs = length moves
       \<and> (\<forall>i < length moves.
             snd (segs ! i) = (case moves ! i of (e, rect) \<Rightarrow> pointer_pos e rect))
       \<and> (moves \<noteq> [] \<longrightarrow> fst (segs ! 0) = pointer_pos e0 rect0)
       \<and> (\<forall>i. 0 < i \<and> i < length moves \<longrightarrow> fst (segs ! i) = snd (segs ! (i - 1)))
       \<and> published_segments fx = (if client_connected s then segs else []))
     \<and> step cnv MouseUp s = Inr ([], s\<lparr>isDrawing := False\<rparr>)
     \<and> step cnv MouseLeave s = Inr ([], s\<lparr>isDrawing := False\<rparr>)"
proof -
  define s0 where "s0 = snd (startDrawing e0 rect0 s)"
  define mv where "mv = map (\<lambda>(e, rect). MouseMove e rect) moves"
  define pts where "pts = map (\<lambda>(e, rect). pointer_pos e rect) moves"
  have s0: "isDrawing s0" "client_connected s0 = client_connected s"
    "(JNum (px (lastPos s0)), JNum (py (lastPos s0))) = pointer_pos e0 rect0"
    by (simp_all add: s0_def startDrawing_def client_connected_def pointer_pos_def)
  have fx: "fst (run cnv (gesture e0 rect0 moves) s) = fst (run cnv mv s0)"
    and r: "snd (snd (run cnv (gesture e0 rect0 moves) s)) = snd (snd (run cnv mv s0))"
    by (simp_all add: gesture_def s0_def mv_def startDrawing_def split: prod.splits)
  from run_moves [OF s0(1), where moves = moves and cnv = cnv]
  have none: "snd (snd (run cnv mv s0)) = None"
    and segs: "painted_segments (fst (run cnv mv s0)) = zip (pointer_pos e0 rect0 # pts) pts"
    and pub: "published_segments (fst (run cnv mv s0)) =
                (if client_connected s then zip (pointer_pos e0 rect0 # pts) pts else [])"
    unfolding s0(2) s0(3) mv_def pts_def by simp_all
  have len: "length pts = length moves" by (simp add: pts_def)
  have ends: "\<forall>i < length moves. snd (zip (pointer_pos e0 rect0 # pts) pts ! i) =
                (case moves ! i of (e, rect) \<Rightarrow> pointer_pos e rect)"
    by (simp add: pts_def)
  have first: "moves \<noteq> [] \<longrightarrow>
                 fst (zip (pointer_pos e0 rect0 # pts) pts ! 0) = pointer_pos e0 rect0"
    using len by (cases pts) auto
  have chain: "\<forall>i. 0 < i \<and> i < length moves \<longrightarrow>
      fst (zip (pointer_pos e0 rect0 # pts) pts ! i) =
      snd (zip (pointer_pos e0 rect0 # pts) pts ! (i - 1))"
  proof (intro allI impI)
    fix i assume i: "0 < i \<and> i < length moves"
    then obtain j where j: "i = Suc j" by (cases i) auto
    with i len show "fst (zip (pointer_pos e0 rect0 # pts) pts ! i) =
        snd (zip (pointer_pos e0 rect0 # pts) pts ! (i - 1))"
      by simp
  qed
  have up: "step cnv MouseUp s = Inr ([], s\<lparr>isDrawing := False\<rparr>)"
    "step cnv MouseLeave s = Inr ([], s\<lparr>isDrawing := False\<rparr>)"
    by (simp_all add: stopDrawing_def)
  show ?thesis
    unfolding Let_def fx r none segs pub
    using len ends first chain up by simp
qed

theorem gesture_anchor_chaining_witness:
  "painted_segments
     (fst (run html_canvas (gesture \<lparr>clientX = 18, clientY = 80\<rparr> example_rect
                 [(\<lparr>clientX = 23, clientY = 85\<rparr>, example_rect),
                  (\<lparr>clientX = 38, clientY = 65\<rparr>, example_rect)])
            example_engine)) =
     [((JNum 10, JNum 20), (JNum 15, JNum 25)), ((JNum 15, JNum 25), (JNum 30, JNum 5))]
   \<and> published_segments
     (fst (run html_canvas (gesture \<lparr>clientX = 18, clientY = 80\<rparr> example_rect
                 [(\<lparr>clientX = 23, clientY = 85\<rparr>, example_rect),
                  (\<lparr>clientX = 38, clientY = 65\<rparr>, example_rect)])
            example_engine)) =
     [((JNum 10, JNum 20), (JNum 15, JNum 25)), ((JNum 15, JNum 25), (JNum 30, JNum 5))]
   \<and> step html_canvas MouseUp example_engine = Inr ([], example_engine\<lparr>isDrawing := False\<rparr>)"
  using gesture_anchor_chaining
    [where cnv = html_canvas and ?e0.0 = "\<lparr>clientX = 18, clientY = 80\<rparr>"
       and ?rect0.0 = example_rect
       and moves = "[(\<lparr>clientX = 23, clientY = 85\<rparr>, example_rect),
                     (\<lparr>clientX = 38, clientY = 65\<rparr>, example_rect)]"
       and s = example_engine]
  by (simp add: gesture_def startDrawing_def draw_def drawLine_def example_engine_def
        example_rect_def client_connected_def published_segments_def js_get_def SESSION_ID_def
        stopDrawing_def)

end
